theory Spec2Isabelle
  imports Main
begin

section \<open>Values that cross the boundary of the bot\<close>

text \<open>
  The bot talks to the Telegram Bot API through \<^verbatim>\<open>fetch\<close> and reads one environment
  variable. Both are inputs of the model: the token is a \<open>string option\<close> (what
  \<^verbatim>\<open>process.env.TELEGRAM_BOT_TOKEN\<close> holds), the network is a function from the request
  to what \<^verbatim>\<open>fetch\<close> and then \<^verbatim>\<open>response.json()\<close> do. Calls to the logger are left
  out: they only write to a log.
\<close>

datatype thrown =
    ErrorObject string  \<comment> \<open>a value with \<^verbatim>\<open>instanceof Error\<close>, and its \<^verbatim>\<open>message\<close>\<close>
  | OtherValue          \<comment> \<open>anything else that JavaScript can throw\<close>

datatype scalar =
    Str string
  | Num int

record request =
  url :: string
  httpMethod :: string
  headers :: "(string \<times> string) list"
  body :: "(string \<times> scalar) list"  \<comment> \<open>the object given to \<^verbatim>\<open>JSON.stringify\<close>\<close>

text \<open>
  Modelled from the spec: the shape of the remote answers, which the source reads as
  untyped JSON. Section 6 gives \<^verbatim>\<open>{ok: bool, result?: {status: string}, description?: string}\<close>
  for the directory query and \<^verbatim>\<open>{ok: bool, result?: {message_id: integer}, description?: string}\<close>
  for the delivery endpoint. The delivery code copies \<^verbatim>\<open>data.result.message_id\<close> without
  looking at it, so a result without that field (\<^verbatim>\<open>{ok: true, result: {}}\<close>) is an answer
  of the model too: \<open>message_id\<close> is optional.
\<close>

record 'r ApiResponse =
  ok :: bool
  result :: "'r option"
  description :: "string option"

record ChatMember =
  member_status :: string  \<comment> \<open>\<^verbatim>\<open>result.status\<close>\<close>

record SentMessage =
  message_id :: "int option"  \<comment> \<open>\<^verbatim>\<open>result.message_id\<close>, undefined when the field is missing\<close>

type_synonym 'r network = "request \<Rightarrow> thrown + (thrown + 'r ApiResponse)"
  \<comment> \<open>outer sum: \<^verbatim>\<open>await fetch(...)\<close>; inner sum: \<^verbatim>\<open>await response.json()\<close>\<close>

record DeliveryOutcome =
  success :: bool
  messageId :: "int option"
  error :: "string option"

record AdminVerdict =
  isAdmin :: bool
  status :: "string option"
  error :: "string option"

record WorkflowInput =
  message :: string
  threadId :: string
  chatId :: scalar
  userId :: int

record AgentOutput =
  response :: string
  chatId :: scalar

record GenerateOptions =
  resourceId :: string
  threadId :: string
  maxSteps :: nat

section \<open>Small pieces of JavaScript\<close>

definition tokenMissing :: "string option \<Rightarrow> bool" where
  \<comment> \<open>\<^verbatim>\<open>!botToken\<close>: undefined or the empty string\<close>
  "tokenMissing tok = (case tok of None \<Rightarrow> True | Some t \<Rightarrow> t = [])"

definition orDefault :: "string option \<Rightarrow> string \<Rightarrow> string" where
  \<comment> \<open>\<^verbatim>\<open>data.description || dflt\<close>\<close>
  "orDefault d dflt = (case d of None \<Rightarrow> dflt | Some s \<Rightarrow> if s = [] then dflt else s)"

definition errorText :: "thrown \<Rightarrow> string" where
  \<comment> \<open>\<^verbatim>\<open>error instanceof Error ? error.message : "Unknown error"\<close>\<close>
  "errorText e = (case e of ErrorObject m \<Rightarrow> m | OtherValue \<Rightarrow> ''Unknown error'')"

definition readResult :: "'r option \<Rightarrow> string \<Rightarrow> thrown + 'r" where
  \<comment> \<open>\<^verbatim>\<open>data.result.field\<close>: a TypeError when \<^verbatim>\<open>data.result\<close> is undefined
      (the wording is that of Node's JavaScript engine)\<close>
  "readResult r field =
     (case r of
        None \<Rightarrow>
          Inl (ErrorObject (''Cannot read properties of undefined (reading '' @
                            [CHR 0x27] @ field @ [CHR 0x27] @ '')''))
      | Some x \<Rightarrow> Inr x)"

definition try_catch :: "thrown + 'a \<Rightarrow> (thrown \<Rightarrow> thrown + 'a) \<Rightarrow> thrown + 'a" where
  "try_catch block handler = (case block of Inl e \<Rightarrow> handler e | Inr v \<Rightarrow> Inr v)"

section \<open>The tools (src/mastra/tools/telegramAdminTool.ts)\<close>

definition getChatMemberRequest :: "string \<Rightarrow> scalar \<Rightarrow> int \<Rightarrow> request" where
  "getChatMemberRequest botToken chat user =
     \<lparr>url = ''https://api.telegram.org/bot'' @ botToken @ ''/getChatMember'',
      httpMethod = ''POST'',
      headers = [(''Content-Type'', ''application/json'')],
      body = [(''chat_id'', chat), (''user_id'', Num user)]\<rparr>"

definition sendMessageRequest :: "string \<Rightarrow> scalar \<Rightarrow> string \<Rightarrow> request" where
  "sendMessageRequest botToken chat txt =
     \<lparr>url = ''https://api.telegram.org/bot'' @ botToken @ ''/sendMessage'',
      httpMethod = ''POST'',
      headers = [(''Content-Type'', ''application/json'')],
      body = [(''chat_id'', chat), (''text'', Str txt)]\<rparr>"

definition checkTelegramAdmin_try :: "ChatMember network \<Rightarrow> request \<Rightarrow> thrown + AdminVerdict" where
  \<comment> \<open>the \<^verbatim>\<open>try\<close> block, lines 36 to 75\<close>
  "checkTelegramAdmin_try net req =
     (case net req of
        Inl e \<Rightarrow> Inl e
      | Inr resp \<Rightarrow>
          (case resp of
             Inl e \<Rightarrow> Inl e
           | Inr data \<Rightarrow>
               if \<not> ok data then
                 Inr \<lparr>isAdmin = False, status = None,
                      AdminVerdict.error = Some (orDefault (description data) ''Failed to check admin status'')\<rparr>
               else
                 (case readResult (result data) ''status'' of
                    Inl e \<Rightarrow> Inl e
                  | Inr member \<Rightarrow>
                      let memberStatus = member_status member;
                          isAdmin = (memberStatus = ''creator'' \<or> memberStatus = ''administrator'')
                      in Inr \<lparr>isAdmin = isAdmin, status = Some memberStatus,
                              AdminVerdict.error = None\<rparr>)))"

definition checkTelegramAdminTool ::
  "string option \<Rightarrow> ChatMember network \<Rightarrow> scalar \<Rightarrow> int \<Rightarrow> (thrown + AdminVerdict) \<times> request list"
where
  \<comment> \<open>the second component lists the network calls that were made\<close>
  "checkTelegramAdminTool tok net chat user =
     (case tok of
        None \<Rightarrow>
          (Inr \<lparr>isAdmin = False, status = None,
                AdminVerdict.error = Some ''Bot token not configured''\<rparr>, [])
      | Some botToken \<Rightarrow>
          if botToken = [] then
            (Inr \<lparr>isAdmin = False, status = None,
                  AdminVerdict.error = Some ''Bot token not configured''\<rparr>, [])
          else
            let req = getChatMemberRequest botToken chat user
            in (try_catch (checkTelegramAdmin_try net req)
                  (\<lambda>e. Inr \<lparr>isAdmin = False, status = None,
                             AdminVerdict.error = Some (errorText e)\<rparr>),
                [req]))"

definition sendTelegramMessage_try :: "SentMessage network \<Rightarrow> request \<Rightarrow> thrown + DeliveryOutcome" where
  \<comment> \<open>the \<^verbatim>\<open>try\<close> block, lines 121 to 153\<close>
  "sendTelegramMessage_try net req =
     (case net req of
        Inl e \<Rightarrow> Inl e
      | Inr resp \<Rightarrow>
          (case resp of
             Inl e \<Rightarrow> Inl e
           | Inr data \<Rightarrow>
               if \<not> ok data then
                 Inr \<lparr>success = False, messageId = None,
                      DeliveryOutcome.error = Some (orDefault (description data) ''Failed to send message'')\<rparr>
               else
                 (case readResult (result data) ''message_id'' of
                    Inl e \<Rightarrow> Inl e
                  | Inr sent \<Rightarrow>
                      Inr \<lparr>success = True, messageId = message_id sent,
                           DeliveryOutcome.error = None\<rparr>)))"

definition sendTelegramMessageTool ::
  "string option \<Rightarrow> SentMessage network \<Rightarrow> scalar \<Rightarrow> string \<Rightarrow> (thrown + DeliveryOutcome) \<times> request list"
where
  "sendTelegramMessageTool tok net chat txt =
     (case tok of
        None \<Rightarrow>
          (Inr \<lparr>success = False, messageId = None,
                DeliveryOutcome.error = Some ''Bot token not configured''\<rparr>, [])
      | Some botToken \<Rightarrow>
          if botToken = [] then
            (Inr \<lparr>success = False, messageId = None,
                  DeliveryOutcome.error = Some ''Bot token not configured''\<rparr>, [])
          else
            let req = sendMessageRequest botToken chat txt
            in (try_catch (sendTelegramMessage_try net req)
                  (\<lambda>e. Inr \<lparr>success = False, messageId = None,
                             DeliveryOutcome.error = Some (errorText e)\<rparr>),
                [req]))"

section \<open>The workflow steps (telegram bot workflow)\<close>

text \<open>
  The agent is a language model behind \<^verbatim>\<open>telegramBotAgent.generate\<close>. The step only
  builds the prompt, awaits the text and hands it on, so the agent is a parameter:
  a function from the messages and options to the text, or to what it throws.
  \<open>numText\<close> is the conversion of a number inside a template string.
\<close>

definition scalarText :: "(int \<Rightarrow> string) \<Rightarrow> scalar \<Rightarrow> string" where
  "scalarText numText c = (case c of Str s \<Rightarrow> s | Num n \<Rightarrow> numText n)"

definition agentPrompt :: "(int \<Rightarrow> string) \<Rightarrow> WorkflowInput \<Rightarrow> string" where
  "agentPrompt numText inputData =
     [CHR 0x0A] @ ''User message: '' @ message inputData @
     [CHR 0x0A] @ ''Chat ID: '' @ scalarText numText (WorkflowInput.chatId inputData) @
     [CHR 0x0A] @ ''User ID: '' @ numText (userId inputData) @
     [CHR 0x0A, CHR 0x0A] @ ''Please process this message according to your instructions.'' @
     [CHR 0x0A]"

definition useAgent ::
  "(int \<Rightarrow> string) \<Rightarrow> ((string \<times> string) list \<Rightarrow> GenerateOptions \<Rightarrow> thrown + string)
     \<Rightarrow> WorkflowInput \<Rightarrow> thrown + AgentOutput"
where
  "useAgent numText generate inputData =
     (case generate [(''user'', agentPrompt numText inputData)]
             \<lparr>resourceId = ''telegram-bot'',
              GenerateOptions.threadId = WorkflowInput.threadId inputData,
              maxSteps = 5\<rparr> of
        Inl e \<Rightarrow> Inl e
      | Inr txt \<Rightarrow> Inr \<lparr>response = txt, AgentOutput.chatId = WorkflowInput.chatId inputData\<rparr>)"

definition sendReply_try :: "SentMessage network \<Rightarrow> request \<Rightarrow> thrown + DeliveryOutcome" where
  \<comment> \<open>the \<^verbatim>\<open>try\<close> block, lines 96 to 127; the step's object has no error field\<close>
  "sendReply_try net req =
     (case net req of
        Inl e \<Rightarrow> Inl e
      | Inr resp \<Rightarrow>
          (case resp of
             Inl e \<Rightarrow> Inl e
           | Inr data \<Rightarrow>
               if \<not> ok data then
                 Inr \<lparr>success = False, messageId = None, DeliveryOutcome.error = None\<rparr>
               else
                 (case readResult (result data) ''message_id'' of
                    Inl e \<Rightarrow> Inl e
                  | Inr sent \<Rightarrow>
                      Inr \<lparr>success = True, messageId = message_id sent,
                           DeliveryOutcome.error = None\<rparr>)))"

definition sendReply ::
  "string option \<Rightarrow> SentMessage network \<Rightarrow> AgentOutput \<Rightarrow> (thrown + DeliveryOutcome) \<times> request list"
where
  "sendReply tok net inputData =
     (case tok of
        None \<Rightarrow> (Inr \<lparr>success = False, messageId = None, DeliveryOutcome.error = None\<rparr>, [])
      | Some botToken \<Rightarrow>
          if botToken = [] then
            (Inr \<lparr>success = False, messageId = None, DeliveryOutcome.error = None\<rparr>, [])
          else
            let req = sendMessageRequest botToken (AgentOutput.chatId inputData) (response inputData)
            in (try_catch (sendReply_try net req)
                  (\<lambda>e. Inr \<lparr>success = False, messageId = None, DeliveryOutcome.error = None\<rparr>),
                [req]))"

section \<open>Example environments\<close>

text \<open>
  Concrete tokens, remote answers and an agent, for evaluating the tools and the steps.
  \<open>decimalText\<close> is one \<open>numText\<close>: it writes an integer in decimal, which is what a
  template string gives for an integer of magnitude below \<open>10^21\<close> (from there on JavaScript
  switches to the exponent form, which \<open>decimalText\<close> does not follow). It is used at
  \<open>-1001\<close> and \<open>7\<close> only.
\<close>

fun natDigits :: "nat \<Rightarrow> string" where
  "natDigits n = (if n < 10 then [char_of (48 + n)] else natDigits (n div 10) @ [char_of (48 + n mod 10)])"

definition decimalText :: "int \<Rightarrow> string" where
  "decimalText i = (if i < 0 then CHR ''-'' # natDigits (nat (- i)) else natDigits (nat i))"

definition net_creator :: "ChatMember network" where
  "net_creator req = Inr (Inr \<lparr>ok = True, result = Some \<lparr>member_status = ''creator''\<rparr>, description = None\<rparr>)"

definition net_blank_error :: "ChatMember network" where
  "net_blank_error req = Inl (ErrorObject [])"

definition net_fetch_failed :: "ChatMember network" where
  "net_fetch_failed req = Inl (ErrorObject ''fetch failed'')"

definition net_user_not_found :: "ChatMember network" where
  "net_user_not_found req = Inr (Inr \<lparr>ok = False, result = None, description = Some ''Bad Request: user not found''\<rparr>)"

definition net_no_member :: "ChatMember network" where
  "net_no_member req = Inr (Inr \<lparr>ok = True, result = None, description = None\<rparr>)"

definition net_chat_not_found :: "SentMessage network" where
  "net_chat_not_found req = Inr (Inr \<lparr>ok = False, result = None, description = Some ''Bad Request: chat not found''\<rparr>)"

definition net_blank_description :: "SentMessage network" where
  "net_blank_description req = Inr (Inr \<lparr>ok = False, result = None, description = Some []\<rparr>)"

definition net_sent :: "SentMessage network" where
  "net_sent req = Inr (Inr \<lparr>ok = True, result = Some \<lparr>message_id = Some 42\<rparr>, description = None\<rparr>)"

definition net_sent_without_id :: "SentMessage network" where
  "net_sent_without_id req = Inr (Inr \<lparr>ok = True, result = Some \<lparr>message_id = None\<rparr>, description = None\<rparr>)"

definition net_ok_without_result :: "SentMessage network" where
  "net_ok_without_result req = Inr (Inr \<lparr>ok = True, result = None, description = None\<rparr>)"

definition net_unreachable :: "SentMessage network" where
  "net_unreachable req = Inl (ErrorObject ''fetch failed'')"

definition net_not_json :: "SentMessage network" where
  "net_not_json req = Inr (Inl (ErrorObject ''Unexpected token < in JSON at position 0''))"

definition net_rejected_silently :: "ChatMember network" where
  "net_rejected_silently req = Inr (Inr \<lparr>ok = False, result = None, description = None\<rparr>)"

definition net_not_json_admin :: "ChatMember network" where
  "net_not_json_admin req = Inr (Inl OtherValue)"

definition hello_request :: WorkflowInput where
  "hello_request =
     \<lparr>message = ''/text Hello everyone!'', WorkflowInput.threadId = ''telegram/-1001'',
      WorkflowInput.chatId = Num (-1001), userId = 7\<rparr>"

definition agent_hello :: "(string \<times> string) list \<Rightarrow> GenerateOptions \<Rightarrow> thrown + string" where
  "agent_hello msgs opts = Inr ''Hello everyone!''"

section \<open>How the tools unfold\<close>

lemma tokenMissing_cases:
  "tokenMissing tok \<longleftrightarrow> tok = None \<or> tok = Some []"
  by (simp add: tokenMissing_def split: option.splits)

lemma checkAdmin_missing:
  "tokenMissing tok \<Longrightarrow> checkTelegramAdminTool tok net chat user =
     (Inr \<lparr>isAdmin = False, status = None, AdminVerdict.error = Some ''Bot token not configured''\<rparr>, [])"
  by (auto simp: tokenMissing_cases checkTelegramAdminTool_def)

lemma checkAdmin_present:
  "t \<noteq> [] \<Longrightarrow> checkTelegramAdminTool (Some t) net chat user =
     (try_catch (checkTelegramAdmin_try net (getChatMemberRequest t chat user))
        (\<lambda>e. Inr \<lparr>isAdmin = False, status = None, AdminVerdict.error = Some (errorText e)\<rparr>),
      [getChatMemberRequest t chat user])"
  by (simp add: checkTelegramAdminTool_def Let_def)

lemma checkAdmin_returns:
  "\<exists>v. fst (checkTelegramAdminTool tok net chat user) = Inr v"
proof (cases "tokenMissing tok")
  case True
  then show ?thesis by (simp add: checkAdmin_missing)
next
  case False
  then obtain t where t: "tok = Some t" "t \<noteq> []"
    by (auto simp: tokenMissing_cases)
  show ?thesis
    by (cases "checkTelegramAdmin_try net (getChatMemberRequest t chat user)")
       (simp_all add: t checkAdmin_present try_catch_def)
qed

lemma delivery_present:
  "t \<noteq> [] \<Longrightarrow> sendTelegramMessageTool (Some t) net chat txt =
     (try_catch (sendTelegramMessage_try net (sendMessageRequest t chat txt))
        (\<lambda>e. Inr \<lparr>success = False, messageId = None, DeliveryOutcome.error = Some (errorText e)\<rparr>),
      [sendMessageRequest t chat txt])"
  by (simp add: sendTelegramMessageTool_def Let_def)

lemma sendReply_present:
  "t \<noteq> [] \<Longrightarrow> sendReply (Some t) net inputData =
     (try_catch (sendReply_try net
          (sendMessageRequest t (AgentOutput.chatId inputData) (response inputData)))
        (\<lambda>e. Inr \<lparr>success = False, messageId = None, DeliveryOutcome.error = None\<rparr>),
      [sendMessageRequest t (AgentOutput.chatId inputData) (response inputData)])"
  by (simp add: sendReply_def Let_def)

lemma sendReply_missing:
  "tokenMissing tok \<Longrightarrow> sendReply tok net inputData =
     (Inr \<lparr>success = False, messageId = None, DeliveryOutcome.error = None\<rparr>, [])"
  by (auto simp: tokenMissing_cases sendReply_def)

lemma sendReply_try_cases:
  "sendReply_try net req =
     (case net req of
        Inr (Inr data) \<Rightarrow>
          (if ok data then
             (case result data of
                None \<Rightarrow> Inl (ErrorObject (''Cannot read properties of undefined (reading '' @
                                    [CHR 0x27] @ ''message_id'' @ [CHR 0x27] @ '')''))
              | Some sent \<Rightarrow> Inr \<lparr>success = True, messageId = message_id sent,
                                 DeliveryOutcome.error = None\<rparr>)
           else Inr \<lparr>success = False, messageId = None, DeliveryOutcome.error = None\<rparr>)
      | Inr (Inl e) \<Rightarrow> Inl e
      | Inl e \<Rightarrow> Inl e)"
  by (simp add: sendReply_try_def readResult_def split: sum.splits option.splits)

section \<open>The admin oracle\<close>

text \<open>
  Claim C2. When the query succeeds (the token is set, \<^verbatim>\<open>fetch\<close> and \<^verbatim>\<open>json()\<close> return,
  the answer is ok and carries a member), the tool returns a verdict whose \<open>isAdmin\<close> is true
  exactly when the remote status is \<^verbatim>\<open>creator\<close> or \<^verbatim>\<open>administrator\<close>; the verdict repeats the
  status and has no error.
\<close>

theorem checkAdmin_status_decides:
  assumes "tok = Some t" and "t \<noteq> []"
    and "net (getChatMemberRequest t chat user) = Inr (Inr data)"
    and "ok data" and "result data = Some member"
  shows "\<exists>v. fst (checkTelegramAdminTool tok net chat user) = Inr v
           \<and> (isAdmin v \<longleftrightarrow> member_status member = ''creator'' \<or> member_status member = ''administrator'')
           \<and> status v = Some (member_status member)
           \<and> AdminVerdict.error v = None"
  using assms
  by (simp add: checkAdmin_present try_catch_def checkTelegramAdmin_try_def readResult_def Let_def)

text \<open>The chat's creator, on a configured bot.\<close>

theorem checkAdmin_status_decides_witness:
  "\<exists>v. fst (checkTelegramAdminTool (Some ''123456:ABC'') net_creator (Num (-1001)) 7) = Inr v
      \<and> isAdmin v \<and> status v = Some ''creator'' \<and> AdminVerdict.error v = None"
  using checkAdmin_status_decides [of "Some ''123456:ABC''" "''123456:ABC''" net_creator "Num (-1001)" 7
      "\<lparr>ok = True, result = Some \<lparr>member_status = ''creator''\<rparr>, description = None\<rparr>"
      "\<lparr>member_status = ''creator''\<rparr>"]
  by (simp add: net_creator_def)

text \<open>
  The description is not always non-empty: the \<^verbatim>\<open>catch\<close> block copies the message of the
  Error it caught, and an Error may have the empty message.
\<close>

theorem checkAdmin_blank_error_counterexample:
  "fst (checkTelegramAdminTool (Some ''123456:ABC'') net_blank_error (Num (-1001)) 7) =
     Inr \<lparr>isAdmin = False, status = None, AdminVerdict.error = Some []\<rparr>"
  by (simp add: checkAdmin_present try_catch_def checkTelegramAdmin_try_def net_blank_error_def errorText_def)

text \<open>
  Claim C3, as the code has it. The tool always returns a verdict and never throws. On every
  failure the verdict has \<open>isAdmin = False\<close>, no status and an error text:
  \<^item> with the token missing, \<^verbatim>\<open>Bot token not configured\<close>, and no network call is made;
  \<^item> when \<^verbatim>\<open>fetch\<close> or \<^verbatim>\<open>json()\<close> throws, the message of the Error thrown, as it is
    (so empty when that message is empty), or \<^verbatim>\<open>Unknown error\<close> for a thrown value that is
    not an Error;
  \<^item> when the remote answers not ok, the remote description when there is a non-empty one,
    and \<^verbatim>\<open>Failed to check admin status\<close> when the description is absent or empty;
  \<^item> when the answer is ok and has no result, the message of the TypeError that reading
    the status throws inside the \<^verbatim>\<open>try\<close> block.
\<close>

theorem checkAdmin_fail_closed:
  "(\<exists>v. fst (checkTelegramAdminTool tok net chat user) = Inr v) \<and>
   (tokenMissing tok \<longrightarrow>
      checkTelegramAdminTool tok net chat user =
        (Inr \<lparr>isAdmin = False, status = None,
              AdminVerdict.error = Some ''Bot token not configured''\<rparr>, [])) \<and>
   (tok = Some t \<and> t \<noteq> [] \<and>
      (net (getChatMemberRequest t chat user) = Inl e \<or>
       net (getChatMemberRequest t chat user) = Inr (Inl e)) \<longrightarrow>
      fst (checkTelegramAdminTool tok net chat user) =
        Inr \<lparr>isAdmin = False, status = None,
             AdminVerdict.error =
               Some (case e of ErrorObject m \<Rightarrow> m | OtherValue \<Rightarrow> ''Unknown error'')\<rparr>) \<and>
   (tok = Some t \<and> t \<noteq> [] \<and>
      net (getChatMemberRequest t chat user) = Inr (Inr d) \<and> \<not> ok d \<longrightarrow>
      fst (checkTelegramAdminTool tok net chat user) =
        Inr \<lparr>isAdmin = False, status = None,
             AdminVerdict.error =
               Some (case description d of
                       None \<Rightarrow> ''Failed to check admin status''
                     | Some x \<Rightarrow> if x = [] then ''Failed to check admin status'' else x)\<rparr>) \<and>
   (tok = Some t \<and> t \<noteq> [] \<and>
      net (getChatMemberRequest t chat user) = Inr (Inr d) \<and> ok d \<and> result d = None \<longrightarrow>
      fst (checkTelegramAdminTool tok net chat user) =
        Inr \<lparr>isAdmin = False, status = None,
             AdminVerdict.error =
               Some (''Cannot read properties of undefined (reading '' @
                     [CHR 0x27] @ ''status'' @ [CHR 0x27] @ '')'')\<rparr>)"
proof (intro conjI impI)
  show "\<exists>v. fst (checkTelegramAdminTool tok net chat user) = Inr v"
    by (rule checkAdmin_returns)
next
  assume "tokenMissing tok"
  then show "checkTelegramAdminTool tok net chat user =
        (Inr \<lparr>isAdmin = False, status = None,
              AdminVerdict.error = Some ''Bot token not configured''\<rparr>, [])"
    by (rule checkAdmin_missing)
next
  assume "tok = Some t \<and> t \<noteq> [] \<and>
      (net (getChatMemberRequest t chat user) = Inl e \<or>
       net (getChatMemberRequest t chat user) = Inr (Inl e))"
  then show "fst (checkTelegramAdminTool tok net chat user) =
        Inr \<lparr>isAdmin = False, status = None,
             AdminVerdict.error =
               Some (case e of ErrorObject m \<Rightarrow> m | OtherValue \<Rightarrow> ''Unknown error'')\<rparr>"
    by (auto simp: checkAdmin_present try_catch_def checkTelegramAdmin_try_def errorText_def)
next
  assume "tok = Some t \<and> t \<noteq> [] \<and>
      net (getChatMemberRequest t chat user) = Inr (Inr d) \<and> \<not> ok d"
  then show "fst (checkTelegramAdminTool tok net chat user) =
        Inr \<lparr>isAdmin = False, status = None,
             AdminVerdict.error =
               Some (case description d of
                       None \<Rightarrow> ''Failed to check admin status''
                     | Some x \<Rightarrow> if x = [] then ''Failed to check admin status'' else x)\<rparr>"
    by (simp add: checkAdmin_present try_catch_def checkTelegramAdmin_try_def orDefault_def)
next
  assume "tok = Some t \<and> t \<noteq> [] \<and>
      net (getChatMemberRequest t chat user) = Inr (Inr d) \<and> ok d \<and> result d = None"
  then show "fst (checkTelegramAdminTool tok net chat user) =
        Inr \<lparr>isAdmin = False, status = None,
             AdminVerdict.error =
               Some (''Cannot read properties of undefined (reading '' @
                     [CHR 0x27] @ ''status'' @ [CHR 0x27] @ '')'')\<rparr>"
    by (simp add: checkAdmin_present try_catch_def checkTelegramAdmin_try_def readResult_def errorText_def)
qed

text \<open>
  One run for each failure: no token, a failed fetch, a body that is not JSON (thrown as a
  value that is no Error), a rejected query with and without description, an answer
  without a result.
\<close>

theorem checkAdmin_fail_closed_witness:
  "checkTelegramAdminTool None net_creator (Num (-1001)) 7 =
     (Inr \<lparr>isAdmin = False, status = None, AdminVerdict.error = Some ''Bot token not configured''\<rparr>, [])
   \<and> fst (checkTelegramAdminTool (Some ''123456:ABC'') net_fetch_failed (Num (-1001)) 7) =
       Inr \<lparr>isAdmin = False, status = None, AdminVerdict.error = Some ''fetch failed''\<rparr>
   \<and> fst (checkTelegramAdminTool (Some ''123456:ABC'') net_not_json_admin (Num (-1001)) 7) =
       Inr \<lparr>isAdmin = False, status = None, AdminVerdict.error = Some ''Unknown error''\<rparr>
   \<and> fst (checkTelegramAdminTool (Some ''123456:ABC'') net_user_not_found (Num (-1001)) 7) =
       Inr \<lparr>isAdmin = False, status = None, AdminVerdict.error = Some ''Bad Request: user not found''\<rparr>
   \<and> fst (checkTelegramAdminTool (Some ''123456:ABC'') net_rejected_silently (Num (-1001)) 7) =
       Inr \<lparr>isAdmin = False, status = None, AdminVerdict.error = Some ''Failed to check admin status''\<rparr>
   \<and> fst (checkTelegramAdminTool (Some ''123456:ABC'') net_no_member (Num (-1001)) 7) =
       Inr \<lparr>isAdmin = False, status = None,
            AdminVerdict.error = Some (''Cannot read properties of undefined (reading '' @
                     [CHR 0x27] @ ''status'' @ [CHR 0x27] @ '')'')\<rparr>"
  using checkAdmin_fail_closed [of None net_creator "Num (-1001)" 7]
    checkAdmin_fail_closed [of "Some ''123456:ABC''" net_fetch_failed "Num (-1001)" 7
      "''123456:ABC''" "ErrorObject ''fetch failed''"]
    checkAdmin_fail_closed [of "Some ''123456:ABC''" net_not_json_admin "Num (-1001)" 7
      "''123456:ABC''" OtherValue]
    checkAdmin_fail_closed [of "Some ''123456:ABC''" net_user_not_found "Num (-1001)" 7
      "''123456:ABC''" _
      "\<lparr>ok = False, result = None, description = Some ''Bad Request: user not found''\<rparr>"]
    checkAdmin_fail_closed [of "Some ''123456:ABC''" net_rejected_silently "Num (-1001)" 7
      "''123456:ABC''" _
      "\<lparr>ok = False, result = None, description = None\<rparr>"]
    checkAdmin_fail_closed [of "Some ''123456:ABC''" net_no_member "Num (-1001)" 7
      "''123456:ABC''" _
      "\<lparr>ok = True, result = None, description = None\<rparr>"]
  by (simp add: tokenMissing_def net_fetch_failed_def net_not_json_admin_def net_user_not_found_def
      net_rejected_silently_def net_no_member_def)

section \<open>Delivery\<close>

text \<open>
  The workflow step \<open>sendReply\<close> drops the remote description: its object has no error
  field. The tool replaces an empty description by its fixed text.
\<close>

theorem delivery_description_counterexample:
  "fst (sendReply (Some ''123456:ABC'') net_chat_not_found
          \<lparr>response = ''Hello everyone!'', AgentOutput.chatId = Num (-1001)\<rparr>) \<noteq>
     Inr \<lparr>success = False, messageId = None,
          DeliveryOutcome.error = Some ''Bad Request: chat not found''\<rparr>
   \<and> fst (sendTelegramMessageTool (Some ''123456:ABC'') net_blank_description
          (Num (-1001)) ''Hello everyone!'') \<noteq>
     Inr \<lparr>success = False, messageId = None, DeliveryOutcome.error = Some []\<rparr>"
  by (simp add: sendReply_present delivery_present try_catch_def sendReply_try_def
      sendTelegramMessage_try_def net_chat_not_found_def net_blank_description_def orDefault_def)

text \<open>
  Claim C6, as the code has it. When the transport succeeds and the remote answers not ok with
  description \<open>x\<close>: \<open>sendTelegramMessageTool\<close> returns \<^verbatim>\<open>{success: false, error: x}\<close> for a
  non-empty \<open>x\<close>, and \<^verbatim>\<open>Failed to send message\<close> as the error for the empty one;
  \<open>sendReply\<close> returns \<^verbatim>\<open>{success: false}\<close> and no error.
\<close>

theorem delivery_rejected:
  assumes "tok = Some t" and "t \<noteq> []"
    and "net (sendMessageRequest t chat txt) = Inr (Inr d)"
    and "\<not> ok d" and "description d = Some x"
  shows "(x \<noteq> [] \<longrightarrow>
            fst (sendTelegramMessageTool tok net chat txt) =
              Inr \<lparr>success = False, messageId = None, DeliveryOutcome.error = Some x\<rparr>)
       \<and> (x = [] \<longrightarrow>
            fst (sendTelegramMessageTool tok net chat txt) =
              Inr \<lparr>success = False, messageId = None,
                   DeliveryOutcome.error = Some ''Failed to send message''\<rparr>)
       \<and> fst (sendReply tok net \<lparr>response = txt, AgentOutput.chatId = chat\<rparr>) =
              Inr \<lparr>success = False, messageId = None, DeliveryOutcome.error = None\<rparr>"
  using assms
  by (simp add: delivery_present sendReply_present try_catch_def sendTelegramMessage_try_def
      sendReply_try_def orDefault_def)

text \<open>A chat that does not exist, and a rejection without words.\<close>

theorem delivery_rejected_witness:
  "fst (sendTelegramMessageTool (Some ''123456:ABC'') net_chat_not_found (Num (-1001)) ''Hello everyone!'') =
     Inr \<lparr>success = False, messageId = None,
          DeliveryOutcome.error = Some ''Bad Request: chat not found''\<rparr>
   \<and> fst (sendTelegramMessageTool (Some ''123456:ABC'') net_blank_description (Num (-1001)) ''Hello everyone!'') =
     Inr \<lparr>success = False, messageId = None,
          DeliveryOutcome.error = Some ''Failed to send message''\<rparr>
   \<and> fst (sendReply (Some ''123456:ABC'') net_chat_not_found
          \<lparr>response = ''Hello everyone!'', AgentOutput.chatId = Num (-1001)\<rparr>) =
     Inr \<lparr>success = False, messageId = None, DeliveryOutcome.error = None\<rparr>"
  using delivery_rejected [of "Some ''123456:ABC''" "''123456:ABC''" net_chat_not_found
      "Num (-1001)" "''Hello everyone!''"
      "\<lparr>ok = False, result = None, description = Some ''Bad Request: chat not found''\<rparr>"
      "''Bad Request: chat not found''"]
    delivery_rejected [of "Some ''123456:ABC''" "''123456:ABC''" net_blank_description
      "Num (-1001)" "''Hello everyone!''"
      "\<lparr>ok = False, result = None, description = Some []\<rparr>" "[]"]
  by (simp add: net_chat_not_found_def net_blank_description_def)

text \<open>
  Claim C7. With the bot token missing from the environment (undefined, or empty, which
  \<^verbatim>\<open>!botToken\<close> treats alike), both \<open>sendReply\<close> and \<open>sendTelegramMessageTool\<close> return a
  result with \<open>success = False\<close> and no message id, they return it as a value (\<open>Inr\<close>, nothing
  is thrown), and the list of network calls is empty.
\<close>

theorem delivery_missing_token:
  "tokenMissing tok \<Longrightarrow>
     sendReply tok net inputData =
       (Inr \<lparr>success = False, messageId = None, DeliveryOutcome.error = None\<rparr>, [])
     \<and> sendTelegramMessageTool tok net chat txt =
       (Inr \<lparr>success = False, messageId = None,
             DeliveryOutcome.error = Some ''Bot token not configured''\<rparr>, [])"
  by (auto simp: tokenMissing_cases sendReply_def sendTelegramMessageTool_def)

text \<open>No token in the environment, on a network that would have accepted the message.\<close>

theorem delivery_missing_token_witness:
  "tokenMissing None
   \<and> sendReply None net_sent \<lparr>response = ''Hello everyone!'', AgentOutput.chatId = Num (-1001)\<rparr> =
       (Inr \<lparr>success = False, messageId = None, DeliveryOutcome.error = None\<rparr>, [])
   \<and> sendTelegramMessageTool None net_sent (Num (-1001)) ''Hello everyone!'' =
       (Inr \<lparr>success = False, messageId = None,
             DeliveryOutcome.error = Some ''Bot token not configured''\<rparr>, [])"
proof -
  have h: "tokenMissing None" by (simp add: tokenMissing_def)
  show ?thesis
    using h delivery_missing_token [OF h, of net_sent
        "\<lparr>response = ''Hello everyone!'', AgentOutput.chatId = Num (-1001)\<rparr>"
        "Num (-1001)" "''Hello everyone!''"]
    by simp
qed


text \<open>
  Success does not bring a message id with it: the step copies \<^verbatim>\<open>data.result.message_id\<close>
  as it finds it, so an ok answer whose result has no such field gives
  \<^verbatim>\<open>{success: true}\<close> without a message id.
\<close>

theorem sendReply_success_without_id_counterexample:
  "fst (sendReply (Some ''123456:ABC'') net_sent_without_id
          \<lparr>response = ''Hello everyone!'', AgentOutput.chatId = Num (-1001)\<rparr>) =
     Inr \<lparr>success = True, messageId = None, DeliveryOutcome.error = None\<rparr>"
  by (simp add: sendReply_present try_catch_def sendReply_try_cases net_sent_without_id_def)

text \<open>
  Claim C9, as the code has it. \<open>sendReply\<close> always returns an outcome, and no outcome has
  an error description. A message id is present only when \<open>success\<close> is true. On every
  failure branch (the token missing, \<^verbatim>\<open>fetch\<close> or \<^verbatim>\<open>json()\<close> throwing, a remote answer that
  is not ok, an ok answer without result) the outcome is exactly \<^verbatim>\<open>{success: false}\<close>, with
  no message id and no error. Otherwise (an ok answer with a result) the outcome is
  \<open>success = True\<close> with the \<open>message_id\<close> of that result, which is absent when the result
  has none.
\<close>

theorem sendReply_outcome_shape:
  "\<exists>out. fst (sendReply tok net inputData) = Inr out
      \<and> (messageId out \<noteq> None \<longrightarrow> success out)
      \<and> (\<not> success out \<longrightarrow>
            out = \<lparr>success = False, messageId = None, DeliveryOutcome.error = None\<rparr>)
      \<and> DeliveryOutcome.error out = None
      \<and> (tokenMissing tok \<longrightarrow> \<not> success out)
      \<and> (tok = Some t \<and> t \<noteq> [] \<and>
           (net (sendMessageRequest t (AgentOutput.chatId inputData) (response inputData)) = Inl e
            \<or> net (sendMessageRequest t (AgentOutput.chatId inputData) (response inputData)) = Inr (Inl e)
            \<or> net (sendMessageRequest t (AgentOutput.chatId inputData) (response inputData)) = Inr (Inr d)
                \<and> (\<not> ok d \<or> result d = None))
           \<longrightarrow> \<not> success out)
      \<and> (tok = Some t \<and> t \<noteq> [] \<and>
           net (sendMessageRequest t (AgentOutput.chatId inputData) (response inputData)) = Inr (Inr d)
           \<and> ok d \<and> result d = Some r
           \<longrightarrow> out = \<lparr>success = True, messageId = message_id r, DeliveryOutcome.error = None\<rparr>)"
proof (cases "tokenMissing tok")
  case True
  then show ?thesis by (auto simp: sendReply_missing tokenMissing_cases)
next
  case False
  then obtain t' where t': "tok = Some t'" "t' \<noteq> []"
    by (auto simp: tokenMissing_cases)
  show ?thesis
    using False
    by (auto simp: t' sendReply_present try_catch_def sendReply_try_cases
        split: sum.splits option.splits)
qed

text \<open>
  A delivered message, a delivered message whose id the remote left out, a rejected one,
  an unreachable remote, a body that is not JSON, an ok answer without result, and a bot
  without token.
\<close>

theorem sendReply_outcome_shape_witness:
  "fst (sendReply (Some ''123456:ABC'') net_sent
          \<lparr>response = ''Hello everyone!'', AgentOutput.chatId = Num (-1001)\<rparr>) =
     Inr \<lparr>success = True, messageId = Some 42, DeliveryOutcome.error = None\<rparr>
   \<and> fst (sendReply (Some ''123456:ABC'') net_sent_without_id
          \<lparr>response = ''Hello everyone!'', AgentOutput.chatId = Num (-1001)\<rparr>) =
     Inr \<lparr>success = True, messageId = None, DeliveryOutcome.error = None\<rparr>
   \<and> fst (sendReply (Some ''123456:ABC'') net_chat_not_found
          \<lparr>response = ''Hello everyone!'', AgentOutput.chatId = Num (-1001)\<rparr>) =
     Inr \<lparr>success = False, messageId = None, DeliveryOutcome.error = None\<rparr>
   \<and> fst (sendReply (Some ''123456:ABC'') net_unreachable
          \<lparr>response = ''Hello everyone!'', AgentOutput.chatId = Num (-1001)\<rparr>) =
     Inr \<lparr>success = False, messageId = None, DeliveryOutcome.error = None\<rparr>
   \<and> fst (sendReply (Some ''123456:ABC'') net_not_json
          \<lparr>response = ''Hello everyone!'', AgentOutput.chatId = Num (-1001)\<rparr>) =
     Inr \<lparr>success = False, messageId = None, DeliveryOutcome.error = None\<rparr>
   \<and> fst (sendReply (Some ''123456:ABC'') net_ok_without_result
          \<lparr>response = ''Hello everyone!'', AgentOutput.chatId = Num (-1001)\<rparr>) =
     Inr \<lparr>success = False, messageId = None, DeliveryOutcome.error = None\<rparr>
   \<and> fst (sendReply None net_sent
          \<lparr>response = ''Hello everyone!'', AgentOutput.chatId = Num (-1001)\<rparr>) =
     Inr \<lparr>success = False, messageId = None, DeliveryOutcome.error = None\<rparr>"
  using sendReply_outcome_shape [of "Some ''123456:ABC''" net_sent
      "\<lparr>response = ''Hello everyone!'', AgentOutput.chatId = Num (-1001)\<rparr>" "''123456:ABC''" _
      "\<lparr>ok = True, result = Some \<lparr>message_id = Some 42\<rparr>, description = None\<rparr>"
      "\<lparr>message_id = Some 42\<rparr>"]
    sendReply_outcome_shape [of "Some ''123456:ABC''" net_sent_without_id
      "\<lparr>response = ''Hello everyone!'', AgentOutput.chatId = Num (-1001)\<rparr>" "''123456:ABC''" _
      "\<lparr>ok = True, result = Some \<lparr>message_id = None\<rparr>, description = None\<rparr>"
      "\<lparr>message_id = None\<rparr>"]
    sendReply_outcome_shape [of "Some ''123456:ABC''" net_chat_not_found
      "\<lparr>response = ''Hello everyone!'', AgentOutput.chatId = Num (-1001)\<rparr>" "''123456:ABC''" _
      "\<lparr>ok = False, result = None, description = Some ''Bad Request: chat not found''\<rparr>"]
    sendReply_outcome_shape [of "Some ''123456:ABC''" net_unreachable
      "\<lparr>response = ''Hello everyone!'', AgentOutput.chatId = Num (-1001)\<rparr>" "''123456:ABC''"
      "ErrorObject ''fetch failed''"]
    sendReply_outcome_shape [of "Some ''123456:ABC''" net_not_json
      "\<lparr>response = ''Hello everyone!'', AgentOutput.chatId = Num (-1001)\<rparr>" "''123456:ABC''"
      "ErrorObject ''Unexpected token < in JSON at position 0''"]
    sendReply_outcome_shape [of "Some ''123456:ABC''" net_ok_without_result
      "\<lparr>response = ''Hello everyone!'', AgentOutput.chatId = Num (-1001)\<rparr>" "''123456:ABC''" _
      "\<lparr>ok = True, result = None, description = None\<rparr>"]
    sendReply_outcome_shape [of None net_sent
      "\<lparr>response = ''Hello everyone!'', AgentOutput.chatId = Num (-1001)\<rparr>"]
  by (auto simp: tokenMissing_def net_sent_def net_sent_without_id_def net_chat_not_found_def
      net_unreachable_def net_not_json_def net_ok_without_result_def)

section \<open>The agent step and where its reply goes\<close>




end
